theory Spec2Isabelle
  imports Main
begin

section \<open>Project deletion in the orchest-api (namespace_projects.py)\<close>

text \<open>
  The module deletes everything that depends on a project: live interactive runs are
  aborted and deleted, interactive sessions are stopped, environment images are removed.
  All of it happens inside one \<open>TwoPhaseExecutor\<close> block: the store mutations of every
  unit run at once, the infrastructure calls are queued and run after the commit.
\<close>

subsection \<open>The metadata store\<close>

text \<open>
  The rows the queries of \<open>DeleteProject._transaction\<close> read. Only the columns the module
  uses are kept. A table is the list of its rows. The service has no model for a project
  (the module's docstring says so), so the store has no project table.
\<close>

record InteractivePipelineRun =
  run_uuid :: string
  run_project_uuid :: string
  status :: string

record InteractiveSession =
  session_project_uuid :: string
  session_pipeline_uuid :: string

record Job =
  job_uuid :: string
  job_project_uuid :: string

record EnvironmentImage =
  image_project_uuid :: string
  image_environment_uuid :: string

record db =
  interactive_runs :: "InteractivePipelineRun list"
  interactive_sessions :: "InteractiveSession list"
  jobs :: "Job list"
  environment_images :: "EnvironmentImage list"

subsection \<open>Exceptions, units of work, the executor's state\<close>

text \<open>
  A Python exception with its message. \<open>Exception m\<close> is an instance of the class
  \<open>Exception\<close>; \<open>BaseException m\<close> is an exception whose class derives from
  \<open>BaseException\<close> but not from \<open>Exception\<close> (\<open>KeyboardInterrupt\<close>, \<open>SystemExit\<close>,
  \<open>GeneratorExit\<close>). \<open>str\<close> is Python's \<open>str(e)\<close>, and \<open>isinstance_Exception\<close> is the
  test an \<open>except Exception\<close> clause makes.
\<close>

datatype exn = Exception string | BaseException string

fun str :: "exn \<Rightarrow> string" where
  "str (Exception m) = m"
| "str (BaseException m) = m"

fun isinstance_Exception :: "exn \<Rightarrow> bool" where
  "isinstance_Exception (Exception m) = True"
| "isinstance_Exception (BaseException m) = False"

text \<open>
  The \<open>TwoPhaseFunction\<close> classes the module imports or defines, each bound to the
  arguments of its \<open>transaction\<close> call.
\<close>

datatype two_phase_function =
    AbortPipelineRun string
  | StopInteractiveSession string string
  | DeleteJob string
  | DeleteProjectEnvironmentImages string
  | DeleteProject string

text \<open>
  A store mutation: the store phase of a terminal unit, or \<open>db.session.delete(run)\<close>
  (the run is named by its \<open>run_uuid\<close>).
\<close>

datatype operation =
    Transaction two_phase_function
  | Delete string

text \<open>
  The \<open>TwoPhaseExecutor\<close> handle \<open>tpe\<close>: the session holds the store as the open
  transaction sees it, \<open>collateral_queue\<close> the units whose side-effect phase is pending.
  \<open>journal\<close> is not a field of the Python object: it records the store mutations done so
  far in the block, in order, so that their order can be stated.
\<close>

record tpe =
  session :: db
  collateral_queue :: "two_phase_function list"
  journal :: "operation list"

text \<open>
  What the caller can observe: the committed store and, in order, the commits, rollbacks
  and calls to the infrastructure backends.
\<close>

datatype backend_call =
    Abort string
  | Stop string string
  | Cancel string
  | Delete_images string

datatype event = Commit | Rollback | Call backend_call

record world =
  database :: db
  timeline :: "event list"

subsection \<open>The units the module imports\<close>

text \<open>
  Modelled from the spec: \<open>TwoPhaseFunction.transaction\<close>
  (\<open>_orchest.internals.two_phase_executor\<close> is not among the sources). Section 4.2:
  the unit's store-mutation phase runs immediately, then its side-effect phase is put on
  the scope's queue. An error of the store phase propagates.
\<close>

definition TwoPhaseFunction_transaction ::
  "two_phase_function \<Rightarrow> (tpe \<Rightarrow> exn + tpe) \<Rightarrow> tpe \<Rightarrow> exn + tpe" where
  "TwoPhaseFunction_transaction u store_phase s =
     (case store_phase s of
        Inl e \<Rightarrow> Inl e
      | Inr s' \<Rightarrow> Inr (s'\<lparr>collateral_queue := collateral_queue s' @ [u]\<rparr>))"

text \<open>
  Modelled from the spec: a single store mutation. The code of the terminal units is not
  among the sources, so when one of their store phases raises is not known: the parameter
  \<open>raises\<close> gives, for each mutation, the exception it raises, if any (section 7, a
  transactional failure). A mutation that does not raise changes the session's view of
  the store and is written to the journal.
\<close>

definition store_mutation ::
  "(operation \<Rightarrow> exn option) \<Rightarrow> operation \<Rightarrow> (db \<Rightarrow> db) \<Rightarrow> tpe \<Rightarrow> exn + tpe" where
  "store_mutation raises op f s =
     (case raises op of
        Some e \<Rightarrow> Inl e
      | None \<Rightarrow> Inr (s\<lparr>session := f (session s), journal := journal s @ [op]\<rparr>))"

text \<open>
  Modelled from the spec: \<open>AbortPipelineRun\<close> (\<open>app.apis.namespace_runs\<close> is not among
  the sources). Section 4.4: the store phase marks the run ABORTED.
\<close>

definition mark_aborted :: "string \<Rightarrow> db \<Rightarrow> db" where
  "mark_aborted u d =
     d\<lparr>interactive_runs :=
         map (\<lambda>r. if run_uuid r = u then r\<lparr>status := ''ABORTED''\<rparr> else r)
           (interactive_runs d)\<rparr>"

definition AbortPipelineRun_transaction ::
  "(operation \<Rightarrow> exn option) \<Rightarrow> string \<Rightarrow> tpe \<Rightarrow> exn + tpe" where
  "AbortPipelineRun_transaction raises u =
     TwoPhaseFunction_transaction (AbortPipelineRun u)
       (store_mutation raises (Transaction (AbortPipelineRun u)) (mark_aborted u))"

text \<open>
  Modelled from the spec: \<open>StopInteractiveSession\<close> (\<open>app.apis.namespace_sessions\<close> is
  not among the sources). Section 4.4: the store phase removes the session record; a
  session is identified by (project_uuid, pipeline_uuid).
\<close>

definition remove_session :: "string \<Rightarrow> string \<Rightarrow> db \<Rightarrow> db" where
  "remove_session p pl d =
     d\<lparr>interactive_sessions :=
         filter (\<lambda>x. \<not> (session_project_uuid x = p \<and> session_pipeline_uuid x = pl))
           (interactive_sessions d)\<rparr>"

definition StopInteractiveSession_transaction ::
  "(operation \<Rightarrow> exn option) \<Rightarrow> string \<Rightarrow> string \<Rightarrow> tpe \<Rightarrow> exn + tpe" where
  "StopInteractiveSession_transaction raises p pl =
     TwoPhaseFunction_transaction (StopInteractiveSession p pl)
       (store_mutation raises (Transaction (StopInteractiveSession p pl)) (remove_session p pl))"

text \<open>
  Modelled from the spec: \<open>DeleteProjectEnvironmentImages\<close>
  (\<open>app.apis.namespace_environment_images\<close> is not among the sources). Section 4.4: the
  store phase removes the image metadata rows of the project.
\<close>

definition remove_images :: "string \<Rightarrow> db \<Rightarrow> db" where
  "remove_images p d =
     d\<lparr>environment_images :=
         filter (\<lambda>i. image_project_uuid i \<noteq> p) (environment_images d)\<rparr>"

definition DeleteProjectEnvironmentImages_transaction ::
  "(operation \<Rightarrow> exn option) \<Rightarrow> string \<Rightarrow> tpe \<Rightarrow> exn + tpe" where
  "DeleteProjectEnvironmentImages_transaction raises p =
     TwoPhaseFunction_transaction (DeleteProjectEnvironmentImages p)
       (store_mutation raises (Transaction (DeleteProjectEnvironmentImages p)) (remove_images p))"

text \<open>
  Modelled from the spec: \<open>db.session.delete(run)\<close> (\<open>app.connections\<close> is not among the
  sources). The row of the run leaves the store; a run is identified by its \<open>run_uuid\<close>,
  the argument \<open>AbortPipelineRun\<close> takes as well.
\<close>

definition remove_run :: "string \<Rightarrow> db \<Rightarrow> db" where
  "remove_run u d =
     d\<lparr>interactive_runs := filter (\<lambda>r. run_uuid r \<noteq> u) (interactive_runs d)\<rparr>"

definition db_session_delete ::
  "(operation \<Rightarrow> exn option) \<Rightarrow> InteractivePipelineRun \<Rightarrow> tpe \<Rightarrow> exn + tpe" where
  "db_session_delete raises run =
     store_mutation raises (Delete (run_uuid run)) (remove_run (run_uuid run))"

subsection \<open>DeleteProject\<close>

text \<open>The three queries of \<open>DeleteProject._transaction\<close>, lines 54-58, 67-77 and 86-92.\<close>

definition interactive_runs_query :: "db \<Rightarrow> string \<Rightarrow> InteractivePipelineRun list" where
  "interactive_runs_query d project_uuid =
     filter (\<lambda>r. status r \<in> set [''PENDING'', ''STARTED''])
       (filter (\<lambda>r. run_project_uuid r = project_uuid) (interactive_runs d))"

definition sessions_query :: "db \<Rightarrow> string \<Rightarrow> (string \<times> string) list" where
  "sessions_query d project_uuid =
     remdups
       (map (\<lambda>x. (session_project_uuid x, session_pipeline_uuid x))
          (filter (\<lambda>x. session_project_uuid x = project_uuid) (interactive_sessions d)))"

definition jobs_query :: "db \<Rightarrow> string \<Rightarrow> string list" where
  "jobs_query d project_uuid =
     map job_uuid (filter (\<lambda>j. job_project_uuid j = project_uuid) (jobs d))"

text \<open>
  Lines 59-63: each selected run is aborted, then its row is deleted. The first error
  leaves the loop, as the exception does.
\<close>

fun abort_and_delete_runs ::
  "(operation \<Rightarrow> exn option) \<Rightarrow> InteractivePipelineRun list \<Rightarrow> tpe \<Rightarrow> exn + tpe" where
  "abort_and_delete_runs raises [] s = Inr s"
| "abort_and_delete_runs raises (run # runs) s =
     (case AbortPipelineRun_transaction raises (run_uuid run) s of
        Inl e \<Rightarrow> Inl e
      | Inr s1 \<Rightarrow>
          (case db_session_delete raises run s1 of
             Inl e \<Rightarrow> Inl e
           | Inr s2 \<Rightarrow> abort_and_delete_runs raises runs s2))"

text \<open>
  Lines 78-82: the call takes the \<open>project_uuid\<close> of the deletion and the pipeline of the
  selected pair.
\<close>

fun stop_sessions ::
  "(operation \<Rightarrow> exn option) \<Rightarrow> string \<Rightarrow> (string \<times> string) list \<Rightarrow> tpe \<Rightarrow> exn + tpe" where
  "stop_sessions raises project_uuid [] s = Inr s"
| "stop_sessions raises project_uuid (row # rows) s =
     (case StopInteractiveSession_transaction raises project_uuid (snd row) s of
        Inl e \<Rightarrow> Inl e
      | Inr s1 \<Rightarrow> stop_sessions raises project_uuid rows s1)"

text \<open>
  Lines 93-94: \<open>DeleteJob(job.job_uuid)\<close> builds the unit and drops it. Neither
  \<open>transaction\<close> nor any other method of the unit is called, so the loop touches neither
  the store nor the queue. (The other units are run as
  \<open>Unit(self.tpe).transaction(...)\<close>.)
\<close>

fun delete_jobs :: "string list \<Rightarrow> tpe \<Rightarrow> tpe" where
  "delete_jobs [] s = s"
| "delete_jobs (job # rows) s = (let u = DeleteJob job in delete_jobs rows s)"

text \<open>\<open>DeleteProject._transaction\<close>, lines 51-97.\<close>

definition DeleteProject__transaction ::
  "(operation \<Rightarrow> exn option) \<Rightarrow> string \<Rightarrow> tpe \<Rightarrow> exn + tpe" where
  "DeleteProject__transaction raises project_uuid s =
     (case abort_and_delete_runs raises (interactive_runs_query (session s) project_uuid) s of
        Inl e \<Rightarrow> Inl e
      | Inr s1 \<Rightarrow>
          (case stop_sessions raises project_uuid (sessions_query (session s1) project_uuid) s1 of
             Inl e \<Rightarrow> Inl e
           | Inr s2 \<Rightarrow>
               DeleteProjectEnvironmentImages_transaction raises project_uuid
                 (delete_jobs (jobs_query (session s2) project_uuid) s2)))"

text \<open>\<open>DeleteProject._collateral\<close>, lines 99-100: \<open>pass\<close>.\<close>

definition DeleteProject__collateral :: "world \<Rightarrow> world" where
  "DeleteProject__collateral w = w"

text \<open>\<open>DeleteProject(tpe).transaction(project_uuid)\<close>, line 34.\<close>

definition DeleteProject_transaction ::
  "(operation \<Rightarrow> exn option) \<Rightarrow> string \<Rightarrow> tpe \<Rightarrow> exn + tpe" where
  "DeleteProject_transaction raises project_uuid =
     TwoPhaseFunction_transaction (DeleteProject project_uuid)
       (DeleteProject__transaction raises project_uuid)"

subsection \<open>The executor and the endpoint\<close>

text \<open>
  Modelled from the spec: the side-effect phases of the imported units (their modules are
  not among the sources). Sections 4.4 and 6: abort the run, stop the session, cancel the
  job's schedule, delete the project's images. The phase of \<open>DeleteProject\<close> is the one
  of the source.
\<close>

fun collateral :: "two_phase_function \<Rightarrow> world \<Rightarrow> world" where
  "collateral (AbortPipelineRun u) w = w\<lparr>timeline := timeline w @ [Call (Abort u)]\<rparr>"
| "collateral (StopInteractiveSession p pl) w = w\<lparr>timeline := timeline w @ [Call (Stop p pl)]\<rparr>"
| "collateral (DeleteJob j) w = w\<lparr>timeline := timeline w @ [Call (Cancel j)]\<rparr>"
| "collateral (DeleteProjectEnvironmentImages p) w =
     w\<lparr>timeline := timeline w @ [Call (Delete_images p)]\<rparr>"
| "collateral (DeleteProject p) w = DeleteProject__collateral w"

text \<open>
  Modelled from the spec: \<open>TwoPhaseExecutor\<close> as a context manager
  (\<open>_orchest.internals.two_phase_executor\<close> is not among the sources). Section 4.1:
  \<open>open\<close> begins a store transaction with an empty queue; \<open>close\<close> on success commits and
  then runs every queued collateral action in enqueue order; on an error from the block
  it rolls back, discards the queue and lets the error propagate.
\<close>

definition TwoPhaseExecutor_enter :: "world \<Rightarrow> tpe" where
  "TwoPhaseExecutor_enter w = \<lparr>session = database w, collateral_queue = [], journal = []\<rparr>"

definition TwoPhaseExecutor ::
  "(tpe \<Rightarrow> exn + tpe) \<Rightarrow> world \<Rightarrow> (exn + unit) \<times> world" where
  "TwoPhaseExecutor block w =
     (case block (TwoPhaseExecutor_enter w) of
        Inl e \<Rightarrow> (Inl e, w\<lparr>timeline := timeline w @ [Rollback]\<rparr>)
      | Inr s \<Rightarrow>
          (Inr (),
           foldl (\<lambda>w' u. collateral u w')
             (w\<lparr>database := session s, timeline := timeline w @ [Commit]\<rparr>)
             (collateral_queue s)))"

text \<open>
  \<open>Project.delete\<close>, lines 26-39. The result is the response (the body, a dict with the
  one key \<open>message\<close>, and the HTTP status), or the exception that leaves the handler:
  line 36 catches the instances of \<open>Exception\<close> only, any other exception of the
  \<open>with\<close> block propagates to the caller.
\<close>

type_synonym response = "(string \<times> string) list \<times> nat"

definition Project_delete ::
  "(operation \<Rightarrow> exn option) \<Rightarrow> string \<Rightarrow> world \<Rightarrow> (exn + response) \<times> world" where
  "Project_delete raises project_uuid w =
     (case TwoPhaseExecutor (DeleteProject_transaction raises project_uuid) w of
        (Inl e, w') \<Rightarrow>
          (if isinstance_Exception e then Inr ([(''message'', str e)], 500) else Inl e, w')
      | (Inr _, w') \<Rightarrow> (Inr ([(''message'', ''Project deletion was successful.'')], 200), w'))"

subsection \<open>What a deletion does, written out\<close>

text \<open>
  The journal entries of the run loop and of the session loop, the store after several
  runs or sessions have been removed, and the state \<open>DeleteProject._transaction\<close> ends in
  when no mutation raises. The lemmas below show that the code computes exactly these.
\<close>

definition run_operations :: "InteractivePipelineRun list \<Rightarrow> operation list" where
  "run_operations rs =
     concat (map (\<lambda>r. [Transaction (AbortPipelineRun (run_uuid r)), Delete (run_uuid r)]) rs)"

definition session_operations :: "string \<Rightarrow> (string \<times> string) list \<Rightarrow> operation list" where
  "session_operations p prs = map (\<lambda>pr. Transaction (StopInteractiveSession p (snd pr))) prs"

definition remove_runs :: "string list \<Rightarrow> db \<Rightarrow> db" where
  "remove_runs us d =
     d\<lparr>interactive_runs := filter (\<lambda>r. run_uuid r \<notin> set us) (interactive_runs d)\<rparr>"

definition remove_sessions :: "string \<Rightarrow> string list \<Rightarrow> db \<Rightarrow> db" where
  "remove_sessions p pls d =
     d\<lparr>interactive_sessions :=
         filter (\<lambda>x. \<not> (session_project_uuid x = p \<and> session_pipeline_uuid x \<in> set pls))
           (interactive_sessions d)\<rparr>"

definition DeleteProject_result :: "string \<Rightarrow> tpe \<Rightarrow> tpe" where
  "DeleteProject_result p s =
     (let live = interactive_runs_query (session s) p;
          pairs = sessions_query (session s) p
      in \<lparr>session =
            \<lparr>interactive_runs =
               filter (\<lambda>r. run_uuid r \<notin> set (map run_uuid live)) (interactive_runs (session s)),
             interactive_sessions =
               filter (\<lambda>x. session_project_uuid x \<noteq> p) (interactive_sessions (session s)),
             jobs = jobs (session s),
             environment_images =
               filter (\<lambda>i. image_project_uuid i \<noteq> p) (environment_images (session s))\<rparr>,
          collateral_queue =
            collateral_queue s @ map (\<lambda>r. AbortPipelineRun (run_uuid r)) live
              @ map (\<lambda>pr. StopInteractiveSession p (snd pr)) pairs
              @ [DeleteProjectEnvironmentImages p],
          journal =
            journal s @ run_operations live @ session_operations p pairs
              @ [Transaction (DeleteProjectEnvironmentImages p)]\<rparr>)"

subsection \<open>The runs and operations the properties speak of\<close>

text \<open>
  The interactive runs of a project that are live (PENDING or STARTED) and those that are
  not, written as the properties state them.
\<close>

definition live_runs :: "db \<Rightarrow> string \<Rightarrow> InteractivePipelineRun list" where
  "live_runs d p =
     filter (\<lambda>r. run_project_uuid r = p \<and> (status r = ''PENDING'' \<or> status r = ''STARTED''))
       (interactive_runs d)"

definition finished_runs :: "db \<Rightarrow> string \<Rightarrow> InteractivePipelineRun list" where
  "finished_runs d p =
     filter (\<lambda>r. run_project_uuid r = p \<and> status r \<noteq> ''PENDING'' \<and> status r \<noteq> ''STARTED'')
       (interactive_runs d)"

fun is_run_operation :: "operation \<Rightarrow> bool" where
  "is_run_operation (Transaction (AbortPipelineRun u)) = True"
| "is_run_operation (Delete u) = True"
| "is_run_operation (Transaction u) = False"

fun is_stop_operation :: "operation \<Rightarrow> bool" where
  "is_stop_operation (Transaction (StopInteractiveSession p pl)) = True"
| "is_stop_operation op = False"

subsection \<open>An example store\<close>

text \<open>
  Project P has a started run, a finished run, a session, a job and an image; project Q
  has a pending run, a session and an image. \<open>example_end\<close> is the state the transaction
  of P ends in when nothing raises.
\<close>

definition no_failure :: "operation \<Rightarrow> exn option" where
  "no_failure op = None"

definition example_db :: db where
  "example_db =
     \<lparr>interactive_runs =
        [\<lparr>run_uuid = ''r1'', run_project_uuid = ''P'', status = ''STARTED''\<rparr>,
         \<lparr>run_uuid = ''r2'', run_project_uuid = ''P'', status = ''SUCCESS''\<rparr>,
         \<lparr>run_uuid = ''r3'', run_project_uuid = ''Q'', status = ''PENDING''\<rparr>],
      interactive_sessions =
        [\<lparr>session_project_uuid = ''P'', session_pipeline_uuid = ''pl1''\<rparr>,
         \<lparr>session_project_uuid = ''Q'', session_pipeline_uuid = ''pl1''\<rparr>],
      jobs = [\<lparr>job_uuid = ''j1'', job_project_uuid = ''P''\<rparr>],
      environment_images =
        [\<lparr>image_project_uuid = ''P'', image_environment_uuid = ''e1''\<rparr>,
         \<lparr>image_project_uuid = ''Q'', image_environment_uuid = ''e2''\<rparr>]\<rparr>"

definition example_tpe :: tpe where
  "example_tpe = \<lparr>session = example_db, collateral_queue = [], journal = []\<rparr>"

definition example_end :: tpe where
  "example_end =
     \<lparr>session =
        \<lparr>interactive_runs =
           [\<lparr>run_uuid = ''r2'', run_project_uuid = ''P'', status = ''SUCCESS''\<rparr>,
            \<lparr>run_uuid = ''r3'', run_project_uuid = ''Q'', status = ''PENDING''\<rparr>],
         interactive_sessions =
           [\<lparr>session_project_uuid = ''Q'', session_pipeline_uuid = ''pl1''\<rparr>],
         jobs = [\<lparr>job_uuid = ''j1'', job_project_uuid = ''P''\<rparr>],
         environment_images =
           [\<lparr>image_project_uuid = ''Q'', image_environment_uuid = ''e2''\<rparr>]\<rparr>,
      collateral_queue =
        [AbortPipelineRun ''r1'', StopInteractiveSession ''P'' ''pl1'',
         DeleteProjectEnvironmentImages ''P''],
      journal =
        [Transaction (AbortPipelineRun ''r1''), Delete ''r1'',
         Transaction (StopInteractiveSession ''P'' ''pl1''),
         Transaction (DeleteProjectEnvironmentImages ''P'')]\<rparr>"

subsection \<open>The phases of the cascade\<close>

text \<open>
  The five phases the ordering property names, and the phase a store mutation belongs
  to. A mutation made by the \<open>DeleteProject\<close> unit itself would be the removal of the
  project record.
\<close>

datatype phase = Runs | Sessions | Jobs | Images | ProjectRecord

fun phase_of :: "operation \<Rightarrow> phase" where
  "phase_of (Transaction (AbortPipelineRun u)) = Runs"
| "phase_of (Delete u) = Runs"
| "phase_of (Transaction (StopInteractiveSession p pl)) = Sessions"
| "phase_of (Transaction (DeleteJob j)) = Jobs"
| "phase_of (Transaction (DeleteProjectEnvironmentImages p)) = Images"
| "phase_of (Transaction (DeleteProject p)) = ProjectRecord"

fun phase_rank :: "phase \<Rightarrow> nat" where
  "phase_rank Runs = 0"
| "phase_rank Sessions = 1"
| "phase_rank Jobs = 2"
| "phase_rank Images = 3"
| "phase_rank ProjectRecord = 4"

text \<open>
  The order as the specification states it: runs, then sessions, then jobs, then images,
  and the removal of the project record last.
\<close>

definition claimed_phase_order :: "operation list \<Rightarrow> bool" where
  "claimed_phase_order ops \<longleftrightarrow>
     sorted (map (\<lambda>op. phase_rank (phase_of op)) ops) \<and> ops \<noteq> [] \<and>
     phase_of (last ops) = ProjectRecord"

subsection \<open>Backend calls, planned mutations, a failing store\<close>

text \<open>
  The backend calls the side-effect phase of a unit issues (the lemma \<open>collateral_calls\<close>
  shows that \<open>collateral\<close> issues exactly these), the store mutations a deletion attempts
  on a store, and an instance of \<open>raises\<close> where removing the images of P violates a
  constraint, and one where a \<open>KeyboardInterrupt\<close> (its message is empty) arrives while
  the images of P are removed.
\<close>

fun calls :: "two_phase_function \<Rightarrow> backend_call list" where
  "calls (AbortPipelineRun u) = [Abort u]"
| "calls (StopInteractiveSession p pl) = [Stop p pl]"
| "calls (DeleteJob j) = [Cancel j]"
| "calls (DeleteProjectEnvironmentImages p) = [Delete_images p]"
| "calls (DeleteProject p) = []"

fun is_DeleteProject :: "two_phase_function \<Rightarrow> bool" where
  "is_DeleteProject (DeleteProject p) = True"
| "is_DeleteProject u = False"

definition DeleteProject_operations :: "db \<Rightarrow> string \<Rightarrow> operation list" where
  "DeleteProject_operations d p =
     run_operations (interactive_runs_query d p) @ session_operations p (sessions_query d p)
       @ [Transaction (DeleteProjectEnvironmentImages p)]"

definition example_world :: world where
  "example_world = \<lparr>database = example_db, timeline = []\<rparr>"

definition images_fail :: "operation \<Rightarrow> exn option" where
  "images_fail op =
     (if op = Transaction (DeleteProjectEnvironmentImages ''P'')
      then Some (Exception ''constraint violated'') else None)"

definition images_interrupted :: "operation \<Rightarrow> exn option" where
  "images_interrupted op =
     (if op = Transaction (DeleteProjectEnvironmentImages ''P'')
      then Some (BaseException []) else None)"

section \<open>Properties\<close>

subsection \<open>The loops and the transaction, step by step\<close>

lemma store_mutation_Inr:
  "store_mutation raises op f s = Inr s' \<longleftrightarrow>
     raises op = None \<and> s' = s\<lparr>session := f (session s), journal := journal s @ [op]\<rparr>"
  by (auto simp: store_mutation_def split: option.splits)

lemma TwoPhaseFunction_transaction_Inr:
  "TwoPhaseFunction_transaction u ph s = Inr s' \<longleftrightarrow>
     (\<exists>s1. ph s = Inr s1 \<and> s' = s1\<lparr>collateral_queue := collateral_queue s1 @ [u]\<rparr>)"
  by (auto simp: TwoPhaseFunction_transaction_def split: sum.splits)

lemma remove_run_mark_aborted: "remove_run u (mark_aborted u d) = remove_run u d"
proof -
  have h: "filter (\<lambda>r. run_uuid r \<noteq> u)
          (map (\<lambda>r. if run_uuid r = u then r\<lparr>status := ''ABORTED''\<rparr> else r) xs) =
        filter (\<lambda>r. run_uuid r \<noteq> u) xs" for xs
    by (induction xs) auto
  show ?thesis by (simp add: remove_run_def mark_aborted_def h)
qed

lemma abort_then_delete_Inr:
  assumes "AbortPipelineRun_transaction raises (run_uuid r) s = Inr s1"
      and "db_session_delete raises r s1 = Inr s2"
  shows "s2 = s\<lparr>session := remove_run (run_uuid r) (session s),
               collateral_queue := collateral_queue s @ [AbortPipelineRun (run_uuid r)],
               journal := journal s @
                 [Transaction (AbortPipelineRun (run_uuid r)), Delete (run_uuid r)]\<rparr>"
  using assms
  by (auto simp: AbortPipelineRun_transaction_def db_session_delete_def
      TwoPhaseFunction_transaction_Inr store_mutation_Inr remove_run_mark_aborted)

lemma remove_runs_Nil: "remove_runs [] d = d"
  by (simp add: remove_runs_def)

lemma remove_runs_Cons: "remove_runs us (remove_run u d) = remove_runs (u # us) d"
  by (auto simp: remove_runs_def remove_run_def intro: filter_cong)

lemma abort_and_delete_runs_Inr:
  "abort_and_delete_runs raises rs s = Inr s' \<Longrightarrow>
     s' = s\<lparr>session := remove_runs (map run_uuid rs) (session s),
            collateral_queue := collateral_queue s @ map (\<lambda>r. AbortPipelineRun (run_uuid r)) rs,
            journal := journal s @ run_operations rs\<rparr>"
proof (induction rs arbitrary: s)
  case Nil
  then show ?case by (simp add: remove_runs_Nil run_operations_def)
next
  case (Cons r rs)
  from Cons.prems obtain s1 s2 where
    a: "AbortPipelineRun_transaction raises (run_uuid r) s = Inr s1" and
    d: "db_session_delete raises r s1 = Inr s2" and
    rest: "abort_and_delete_runs raises rs s2 = Inr s'"
    by (auto split: sum.splits)
  note s2 = abort_then_delete_Inr [OF a d]
  from Cons.IH [OF rest] show ?case
    by (simp add: s2 remove_runs_Cons run_operations_def)
qed

lemma remove_sessions_Nil: "remove_sessions p [] d = d"
  by (simp add: remove_sessions_def)

lemma remove_sessions_Cons:
  "remove_sessions p pls (remove_session p pl d) = remove_sessions p (pl # pls) d"
  by (simp add: remove_sessions_def remove_session_def imp_conjR)

lemma stop_sessions_Inr:
  "stop_sessions raises p prs s = Inr s' \<Longrightarrow>
     s' = s\<lparr>session := remove_sessions p (map snd prs) (session s),
            collateral_queue :=
              collateral_queue s @ map (\<lambda>pr. StopInteractiveSession p (snd pr)) prs,
            journal := journal s @ session_operations p prs\<rparr>"
proof (induction prs arbitrary: s)
  case Nil
  then show ?case by (simp add: remove_sessions_Nil session_operations_def)
next
  case (Cons pr prs)
  from Cons.prems obtain s1 where
    a: "StopInteractiveSession_transaction raises p (snd pr) s = Inr s1" and
    rest: "stop_sessions raises p prs s1 = Inr s'"
    by (auto split: sum.splits)
  from a have s1: "s1 = s\<lparr>session := remove_session p (snd pr) (session s),
       journal := journal s @ [Transaction (StopInteractiveSession p (snd pr))],
       collateral_queue := collateral_queue s @ [StopInteractiveSession p (snd pr)]\<rparr>"
    by (auto simp: StopInteractiveSession_transaction_def TwoPhaseFunction_transaction_Inr
        store_mutation_Inr)
  from Cons.IH [OF rest] show ?case
    by (simp add: s1 remove_sessions_Cons session_operations_def)
qed

lemma delete_jobs_unchanged: "delete_jobs js s = s"
  by (induction js) simp_all

lemma sessions_query_remove_runs:
  "sessions_query (remove_runs us d) p = sessions_query d p"
  by (simp add: sessions_query_def remove_runs_def)

lemma remove_sessions_query:
  assumes "interactive_sessions d' = interactive_sessions d"
  shows "remove_sessions p (map snd (sessions_query d p)) d' =
     d'\<lparr>interactive_sessions :=
         filter (\<lambda>x. session_project_uuid x \<noteq> p) (interactive_sessions d)\<rparr>"
proof -
  have "filter (\<lambda>x. \<not> (session_project_uuid x = p \<and>
            session_pipeline_uuid x \<in> set (map snd (sessions_query d p))))
          (interactive_sessions d) =
        filter (\<lambda>x. session_project_uuid x \<noteq> p) (interactive_sessions d)"
    by (rule filter_cong) (auto simp: sessions_query_def image_iff)
  then show ?thesis unfolding remove_sessions_def assms by simp
qed

text \<open>
  A transaction that returns ends in \<open>DeleteProject_result\<close>: the selected runs are gone,
  the project's sessions and images are gone, the jobs are as they were.
\<close>

lemma DeleteProject__transaction_Inr:
  assumes "DeleteProject__transaction raises p s = Inr s'"
  shows "s' = DeleteProject_result p s"
proof -
  let ?live = "interactive_runs_query (session s) p"
  from assms obtain s1 s2 where
    r: "abort_and_delete_runs raises ?live s = Inr s1" and
    x: "stop_sessions raises p (sessions_query (session s1) p) s1 = Inr s2" and
    i: "DeleteProjectEnvironmentImages_transaction raises p
          (delete_jobs (jobs_query (session s2) p) s2) = Inr s'"
    by (auto simp: DeleteProject__transaction_def split: sum.splits)
  note s1 = abort_and_delete_runs_Inr [OF r]
  have q: "sessions_query (session s1) p = sessions_query (session s) p"
    by (simp add: s1 sessions_query_remove_runs)
  note s2 = stop_sessions_Inr [OF x, unfolded q]
  from i have s': "s' = s2\<lparr>session := remove_images p (session s2),
       journal := journal s2 @ [Transaction (DeleteProjectEnvironmentImages p)],
       collateral_queue := collateral_queue s2 @ [DeleteProjectEnvironmentImages p]\<rparr>"
    by (auto simp: DeleteProjectEnvironmentImages_transaction_def
        TwoPhaseFunction_transaction_Inr store_mutation_Inr delete_jobs_unchanged)
  show ?thesis
    unfolding s' s2 s1 DeleteProject_result_def Let_def
    by (cases s, cases "session s")
      (simp add: remove_images_def remove_sessions_query remove_runs_def)
qed

subsection \<open>The example, evaluated\<close>

lemma interactive_runs_query_live: "interactive_runs_query d p = live_runs d p"
  by (auto simp: interactive_runs_query_def live_runs_def intro: filter_cong)

lemma example_run: "DeleteProject__transaction no_failure ''P'' example_tpe = Inr example_end"
  by (simp add: DeleteProject__transaction_def example_tpe_def example_db_def example_end_def
      no_failure_def interactive_runs_query_def sessions_query_def jobs_query_def
      AbortPipelineRun_transaction_def StopInteractiveSession_transaction_def
      DeleteProjectEnvironmentImages_transaction_def db_session_delete_def
      TwoPhaseFunction_transaction_def store_mutation_def mark_aborted_def remove_run_def
      remove_session_def remove_images_def)

lemma filter_run_operations: "filter is_run_operation (run_operations rs) = run_operations rs"
  by (induction rs) (simp_all add: run_operations_def)

lemma filter_run_session_operations: "filter is_run_operation (session_operations p prs) = []"
  by (induction prs) (simp_all add: session_operations_def)

subsection \<open>Live interactive runs\<close>

text \<open>
  C5. The store-mutation phase of a project's deletion selects exactly the interactive
  runs of the project whose status is PENDING or STARTED; for each of them, in the order
  selected, it runs the store phase of \<open>AbortPipelineRun\<close> and then deletes the run's row.
  No other operation of the transaction aborts or deletes a run, and no row of a selected
  run is left in the store.
\<close>

theorem C5_live_runs_aborted_then_deleted:
  assumes "DeleteProject__transaction raises project_uuid s = Inr s'"
  shows "\<exists>rest. journal s' = journal s @ run_operations (live_runs (session s) project_uuid) @ rest
           \<and> filter is_run_operation rest = []
           \<and> filter (\<lambda>r. run_uuid r \<in> set (map run_uuid (live_runs (session s) project_uuid)))
               (interactive_runs (session s')) = []"
proof -
  note s' = DeleteProject__transaction_Inr [OF assms]
  let ?rest = "session_operations project_uuid (sessions_query (session s) project_uuid)
      @ [Transaction (DeleteProjectEnvironmentImages project_uuid)]"
  have "journal s' = journal s @ run_operations (live_runs (session s) project_uuid) @ ?rest"
    by (simp add: s' DeleteProject_result_def Let_def interactive_runs_query_live)
  moreover have "filter is_run_operation ?rest = []"
    by (simp add: filter_run_session_operations)
  moreover have "filter (\<lambda>r. run_uuid r \<in> set (map run_uuid (live_runs (session s) project_uuid)))
               (interactive_runs (session s')) = []"
    by (simp add: s' DeleteProject_result_def Let_def interactive_runs_query_live)
  ultimately show ?thesis by blast
qed

theorem C5_witness:
  "DeleteProject__transaction no_failure ''P'' example_tpe = Inr example_end \<and>
   (\<exists>rest. journal example_end =
      [Transaction (AbortPipelineRun ''r1''), Delete ''r1''] @ rest \<and>
      filter is_run_operation rest = [])"
proof -
  from C5_live_runs_aborted_then_deleted [OF example_run]
  have "\<exists>rest. journal example_end =
      [Transaction (AbortPipelineRun ''r1''), Delete ''r1''] @ rest \<and>
      filter is_run_operation rest = []"
    by (simp add: example_tpe_def example_db_def live_runs_def run_operations_def) blast
  with example_run show ?thesis by simp
qed

subsection \<open>Interactive sessions\<close>

lemma sessions_query_fst: "pr \<in> set (sessions_query d p) \<Longrightarrow> fst pr = p"
  by (auto simp: sessions_query_def)

lemma session_operations_query:
  "session_operations p (sessions_query d p) =
     map (\<lambda>pr. Transaction (StopInteractiveSession (fst pr) (snd pr))) (sessions_query d p)"
  by (simp add: session_operations_def sessions_query_fst)

lemma filter_stop_run_operations: "filter is_stop_operation (run_operations rs) = []"
  by (induction rs) (simp_all add: run_operations_def)

lemma filter_stop_session_operations:
  "filter is_stop_operation (session_operations p prs) = session_operations p prs"
  by (induction prs) (simp_all add: session_operations_def)

text \<open>
  C6. The store-mutation phase selects the distinct (project, pipeline) pairs of the
  project's interactive sessions and runs the store phase of \<open>StopInteractiveSession\<close>
  once for each pair: the stop operations of a returning transaction are those of the
  selected pairs, in order, and no pair occurs twice.
\<close>

theorem C6_stop_session_once_per_pair:
  assumes "DeleteProject__transaction raises project_uuid s = Inr s'"
  shows "\<exists>new. journal s' = journal s @ new
           \<and> filter is_stop_operation new =
               map (\<lambda>pr. Transaction (StopInteractiveSession (fst pr) (snd pr)))
                 (sessions_query (session s) project_uuid)
           \<and> distinct (sessions_query (session s) project_uuid)
           \<and> set (sessions_query (session s) project_uuid) =
               (\<lambda>x. (session_project_uuid x, session_pipeline_uuid x)) `
                 set (filter (\<lambda>x. session_project_uuid x = project_uuid)
                        (interactive_sessions (session s)))"
proof -
  note s' = DeleteProject__transaction_Inr [OF assms]
  let ?q = "sessions_query (session s) project_uuid"
  let ?new = "run_operations (interactive_runs_query (session s) project_uuid)
      @ session_operations project_uuid ?q
      @ [Transaction (DeleteProjectEnvironmentImages project_uuid)]"
  have "journal s' = journal s @ ?new"
    by (simp add: s' DeleteProject_result_def Let_def)
  moreover have "filter is_stop_operation ?new =
      map (\<lambda>pr. Transaction (StopInteractiveSession (fst pr) (snd pr))) ?q"
    by (simp add: filter_stop_run_operations filter_stop_session_operations
        session_operations_query)
  moreover have "distinct ?q"
    by (simp add: sessions_query_def)
  moreover have "set ?q = (\<lambda>x. (session_project_uuid x, session_pipeline_uuid x)) `
      set (filter (\<lambda>x. session_project_uuid x = project_uuid) (interactive_sessions (session s)))"
    by (simp add: sessions_query_def)
  ultimately show ?thesis by blast
qed

theorem C6_witness:
  "DeleteProject__transaction no_failure ''P'' example_tpe = Inr example_end \<and>
   (\<exists>new. journal example_end = new \<and>
      filter is_stop_operation new = [Transaction (StopInteractiveSession ''P'' ''pl1'')])"
proof -
  from C6_stop_session_once_per_pair [OF example_run]
  have "\<exists>new. journal example_end = new \<and>
      filter is_stop_operation new = [Transaction (StopInteractiveSession ''P'' ''pl1'')]"
    by (simp add: example_tpe_def example_db_def sessions_query_def)
  with example_run show ?thesis by simp
qed

subsection \<open>Runs that are not live\<close>

text \<open>
  \<open>run_uuid\<close> names a run (it is what \<open>AbortPipelineRun\<close> is given), so a store
  holds at most one row for it. In such a store a finished run shares its \<open>run_uuid\<close>
  with no live run.
\<close>

lemma finished_not_live:
  assumes d: "distinct (map run_uuid (interactive_runs d))"
      and r: "r \<in> set (finished_runs d p)"
  shows "run_uuid r \<notin> set (map run_uuid (live_runs d q))"
proof
  assume "run_uuid r \<in> set (map run_uuid (live_runs d q))"
  then obtain r' where r': "r' \<in> set (live_runs d q)" and u: "run_uuid r' = run_uuid r"
    by auto
  from r have rin: "r \<in> set (interactive_runs d)" by (simp add: finished_runs_def)
  from r' have r'in: "r' \<in> set (interactive_runs d)" by (simp add: live_runs_def)
  from d have "inj_on run_uuid (set (interactive_runs d))" by (simp add: distinct_map)
  with rin r'in u have "r' = r" by (auto dest: inj_onD)
  with r r' show False by (auto simp: finished_runs_def live_runs_def)
qed

lemma run_operations_set:
  "set (run_operations rs) =
     (\<lambda>r. Transaction (AbortPipelineRun (run_uuid r))) ` set rs \<union> (\<lambda>r. Delete (run_uuid r)) ` set rs"
  by (induction rs) (auto simp: run_operations_def)

text \<open>
  C9. In a store where \<open>run_uuid\<close> identifies a run, the interactive runs of the project
  whose status is neither PENDING nor STARTED are left as they were by the store-mutation
  phase: their rows are unchanged and still in the store, and none of the operations of
  the transaction aborts or deletes one of them.
\<close>

theorem C9_finished_runs_untouched:
  assumes "distinct (map run_uuid (interactive_runs (session s)))"
      and "DeleteProject__transaction raises project_uuid s = Inr s'"
  shows "finished_runs (session s') project_uuid = finished_runs (session s) project_uuid
           \<and> (\<exists>new. journal s' = journal s @ new
                \<and> filter (\<lambda>op. op \<in> set (run_operations (finished_runs (session s) project_uuid)))
                      new = [])"
proof -
  note s' = DeleteProject__transaction_Inr [OF assms(2)]
  let ?live = "live_runs (session s) project_uuid"
  let ?fin = "finished_runs (session s) project_uuid"
  let ?new = "run_operations ?live
      @ session_operations project_uuid (sessions_query (session s) project_uuid)
      @ [Transaction (DeleteProjectEnvironmentImages project_uuid)]"
  have nl: "run_uuid r \<notin> set (map run_uuid ?live)" if "r \<in> set ?fin" for r
    using finished_not_live [OF assms(1) that] .
  have "finished_runs (session s') project_uuid =
      filter (\<lambda>r. run_project_uuid r = project_uuid \<and> status r \<noteq> ''PENDING'' \<and>
                  status r \<noteq> ''STARTED'' \<and> run_uuid r \<notin> set (map run_uuid ?live))
        (interactive_runs (session s))"
    by (simp add: s' DeleteProject_result_def Let_def interactive_runs_query_live
        finished_runs_def conj_commute conj_left_commute)
  also have "\<dots> = ?fin"
    unfolding finished_runs_def
    by (rule filter_cong) (use nl in \<open>auto simp: finished_runs_def\<close>)
  finally have a: "finished_runs (session s') project_uuid = ?fin" .
  have j: "journal s' = journal s @ ?new"
    by (simp add: s' DeleteProject_result_def Let_def interactive_runs_query_live)
  have "op \<notin> set (run_operations ?fin)" if "op \<in> set ?new" for op
    using that nl by (auto simp: run_operations_set session_operations_def) (metis imageI)+
  then have "filter (\<lambda>op. op \<in> set (run_operations ?fin)) ?new = []"
    by (simp only: filter_empty_conv) blast
  with a j show ?thesis by blast
qed

theorem C9_witness:
  "distinct (map run_uuid (interactive_runs (session example_tpe))) \<and>
   DeleteProject__transaction no_failure ''P'' example_tpe = Inr example_end \<and>
   finished_runs (session example_end) ''P'' =
     [\<lparr>run_uuid = ''r2'', run_project_uuid = ''P'', status = ''SUCCESS''\<rparr>]"
proof -
  have d: "distinct (map run_uuid (interactive_runs (session example_tpe)))"
    by (simp add: example_tpe_def example_db_def)
  from C9_finished_runs_untouched [OF d example_run]
  have "finished_runs (session example_end) ''P'' =
     [\<lparr>run_uuid = ''r2'', run_project_uuid = ''P'', status = ''SUCCESS''\<rparr>]"
    by (simp add: example_tpe_def example_db_def finished_runs_def)
  with d example_run show ?thesis by simp
qed

subsection \<open>The order of the phases\<close>

lemma phases_run_operations:
  "map phase_of (run_operations rs) = replicate (2 * length rs) Runs"
  by (induction rs) (simp_all add: run_operations_def)

lemma phases_session_operations:
  "map phase_of (session_operations p prs) = replicate (length prs) Sessions"
  by (induction prs) (simp_all add: session_operations_def)

text \<open>
  C7 (amended). Leaving aside whatever is done for the project's jobs, the store
  mutations of a returning transaction are, in this order: abort and delete of each live
  interactive run, the stop of each selected session, and the removal of the project's
  environment images, which is the last mutation. No mutation removes a project record.
\<close>

theorem C7_phase_order:
  assumes "DeleteProject__transaction raises project_uuid s = Inr s'"
  shows "\<exists>new. journal s' = journal s @ new
           \<and> map phase_of (filter (\<lambda>op. phase_of op \<noteq> Jobs) new) =
               replicate (2 * length (live_runs (session s) project_uuid)) Runs
                 @ replicate (length (sessions_query (session s) project_uuid)) Sessions
                 @ [Images]"
proof -
  note s' = DeleteProject__transaction_Inr [OF assms]
  let ?new = "run_operations (live_runs (session s) project_uuid)
      @ session_operations project_uuid (sessions_query (session s) project_uuid)
      @ [Transaction (DeleteProjectEnvironmentImages project_uuid)]"
  have j: "journal s' = journal s @ ?new"
    by (simp add: s' DeleteProject_result_def Let_def interactive_runs_query_live)
  have p: "map phase_of ?new =
      replicate (2 * length (live_runs (session s) project_uuid)) Runs
        @ replicate (length (sessions_query (session s) project_uuid)) Sessions @ [Images]"
    by (simp add: phases_run_operations phases_session_operations)
  have "filter (\<lambda>op. phase_of op \<noteq> Jobs) ?new = ?new"
  proof (rule filter_True, rule ballI)
    fix op assume "op \<in> set ?new"
    then have "phase_of op \<in> set (map phase_of ?new)" by (simp only: set_map) (rule imageI)
    then show "phase_of op \<noteq> Jobs" unfolding p by auto
  qed
  with j p show ?thesis by metis
qed

theorem C7_witness:
  "DeleteProject__transaction no_failure ''P'' example_tpe = Inr example_end \<and>
   (\<exists>new. journal example_end = new \<and>
      map phase_of (filter (\<lambda>op. phase_of op \<noteq> Jobs) new) = [Runs, Runs, Sessions, Images])"
proof -
  from C7_phase_order [OF example_run]
  have "\<exists>new. journal example_end = new \<and>
      map phase_of (filter (\<lambda>op. phase_of op \<noteq> Jobs) new) = [Runs, Runs, Sessions, Images]"
    by (simp add: example_tpe_def example_db_def live_runs_def sessions_query_def
        numeral_2_eq_2)
  with example_run show ?thesis by simp
qed

text \<open>
  C7 as stated fails on the example: the transaction of P ends with the removal of the
  images, not with the removal of a project record.
\<close>

theorem C7_counterexample:
  "DeleteProject__transaction no_failure ''P'' example_tpe = Inr example_end \<and>
   map phase_of (journal example_end) = [Runs, Runs, Sessions, Images] \<and>
   \<not> claimed_phase_order (journal example_end)"
  by (simp add: example_run) (simp add: example_end_def claimed_phase_order_def)

subsection \<open>Jobs\<close>

text \<open>
  C1. The specification says that the Delete-Job unit runs for each job of the project.
  On the example, project P owns job j1 and the transaction returns, yet the job's row is
  still in the store, no store mutation of a \<open>DeleteJob\<close> unit is in the journal and no
  \<open>DeleteJob\<close> unit is in the collateral queue: line 94 builds the unit and never calls
  its \<open>transaction\<close>.
\<close>

theorem C1_delete_job_not_run:
  "jobs_query (session example_tpe) ''P'' = [''j1''] \<and>
   DeleteProject__transaction no_failure ''P'' example_tpe = Inr example_end \<and>
   jobs (session example_end) = [\<lparr>job_uuid = ''j1'', job_project_uuid = ''P''\<rparr>] \<and>
   filter (\<lambda>op. phase_of op = Jobs) (journal example_end) = [] \<and>
   filter (\<lambda>u. u = DeleteJob ''j1'') (collateral_queue example_end) = []"
  by (simp add: example_run)
    (simp add: example_end_def example_tpe_def example_db_def jobs_query_def)

subsection \<open>Rollback, commit and the response\<close>

lemma collateral_calls: "collateral u w = w\<lparr>timeline := timeline w @ map Call (calls u)\<rparr>"
  by (cases u) (simp_all add: DeleteProject__collateral_def)

lemma drain_queue:
  "foldl (\<lambda>w u. collateral u w) w q = w\<lparr>timeline := timeline w @ map Call (concat (map calls q))\<rparr>"
  by (induction q arbitrary: w) (simp_all add: collateral_calls)

lemma TwoPhaseExecutor_Inl:
  "block (TwoPhaseExecutor_enter w) = Inl e \<Longrightarrow>
     TwoPhaseExecutor block w = (Inl e, w\<lparr>timeline := timeline w @ [Rollback]\<rparr>)"
  by (simp add: TwoPhaseExecutor_def)

lemma TwoPhaseExecutor_Inr:
  "block (TwoPhaseExecutor_enter w) = Inr s \<Longrightarrow>
     TwoPhaseExecutor block w =
       (Inr (), \<lparr>database = session s,
                timeline = timeline w @ Commit # map Call (concat (map calls (collateral_queue s)))\<rparr>)"
  by (cases w) (simp add: TwoPhaseExecutor_def drain_queue)

lemma Project_delete_Inl:
  "DeleteProject_transaction raises p (TwoPhaseExecutor_enter w) = Inl e \<Longrightarrow>
     Project_delete raises p w =
       (if isinstance_Exception e then Inr ([(''message'', str e)], 500) else Inl e,
        w\<lparr>timeline := timeline w @ [Rollback]\<rparr>)"
  by (simp add: Project_delete_def TwoPhaseExecutor_Inl)

lemma Project_delete_Inr:
  "DeleteProject_transaction raises p (TwoPhaseExecutor_enter w) = Inr s \<Longrightarrow>
     Project_delete raises p w =
       (Inr ([(''message'', ''Project deletion was successful.'')], 200),
        \<lparr>database = session s,
         timeline = timeline w @ Commit # map Call (concat (map calls (collateral_queue s)))\<rparr>)"
  by (simp add: Project_delete_def TwoPhaseExecutor_Inr)

lemma DeleteProject_transaction_Inr:
  "DeleteProject_transaction raises p s = Inr s' \<longleftrightarrow>
     (\<exists>s1. DeleteProject__transaction raises p s = Inr s1 \<and>
           s' = s1\<lparr>collateral_queue := collateral_queue s1 @ [DeleteProject p]\<rparr>)"
  by (simp add: DeleteProject_transaction_def TwoPhaseFunction_transaction_Inr)

lemma DeleteProject_transaction_Inl:
  "DeleteProject_transaction raises p s = Inl e \<longleftrightarrow> DeleteProject__transaction raises p s = Inl e"
  by (simp add: DeleteProject_transaction_def TwoPhaseFunction_transaction_def split: sum.splits)

text \<open>A transaction that returns has raised in none of the mutations it attempted.\<close>

lemma store_mutation_None: "store_mutation raises op f s = Inr s' \<Longrightarrow> raises op = None"
  by (simp add: store_mutation_Inr)

lemma abort_and_delete_runs_None:
  "abort_and_delete_runs raises rs s = Inr s' \<Longrightarrow> op \<in> set (run_operations rs) \<Longrightarrow>
     raises op = None"
proof (induction rs arbitrary: s)
  case Nil
  then show ?case by (simp add: run_operations_def)
next
  case (Cons r rs)
  from Cons.prems(1) obtain s1 s2 where
    a: "AbortPipelineRun_transaction raises (run_uuid r) s = Inr s1" and
    d: "db_session_delete raises r s1 = Inr s2" and
    rest: "abort_and_delete_runs raises rs s2 = Inr s'"
    by (auto split: sum.splits)
  from a have 1: "raises (Transaction (AbortPipelineRun (run_uuid r))) = None"
    by (auto simp: AbortPipelineRun_transaction_def TwoPhaseFunction_transaction_Inr
        store_mutation_Inr)
  from d have 2: "raises (Delete (run_uuid r)) = None"
    by (auto simp: db_session_delete_def store_mutation_Inr)
  from Cons.prems(2) consider "op = Transaction (AbortPipelineRun (run_uuid r))"
    | "op = Delete (run_uuid r)" | "op \<in> set (run_operations rs)"
    by (auto simp: run_operations_def)
  then show ?case using 1 2 Cons.IH [OF rest] by cases auto
qed

lemma stop_sessions_None:
  "stop_sessions raises p prs s = Inr s' \<Longrightarrow> op \<in> set (session_operations p prs) \<Longrightarrow>
     raises op = None"
proof (induction prs arbitrary: s)
  case Nil
  then show ?case by (simp add: session_operations_def)
next
  case (Cons pr prs)
  from Cons.prems(1) obtain s1 where
    a: "StopInteractiveSession_transaction raises p (snd pr) s = Inr s1" and
    rest: "stop_sessions raises p prs s1 = Inr s'"
    by (auto split: sum.splits)
  from a have 1: "raises (Transaction (StopInteractiveSession p (snd pr))) = None"
    by (auto simp: StopInteractiveSession_transaction_def TwoPhaseFunction_transaction_Inr
        store_mutation_Inr)
  from Cons.prems(2) consider "op = Transaction (StopInteractiveSession p (snd pr))"
    | "op \<in> set (session_operations p prs)"
    by (auto simp: session_operations_def)
  then show ?case using 1 Cons.IH [OF rest] by cases auto
qed

lemma DeleteProject__transaction_None:
  assumes "DeleteProject__transaction raises p s = Inr s'"
      and "op \<in> set (DeleteProject_operations (session s) p)"
  shows "raises op = None"
proof -
  let ?live = "interactive_runs_query (session s) p"
  from assms(1) obtain s1 s2 where
    r: "abort_and_delete_runs raises ?live s = Inr s1" and
    x: "stop_sessions raises p (sessions_query (session s1) p) s1 = Inr s2" and
    i: "DeleteProjectEnvironmentImages_transaction raises p
          (delete_jobs (jobs_query (session s2) p) s2) = Inr s'"
    by (auto simp: DeleteProject__transaction_def split: sum.splits)
  note s1 = abort_and_delete_runs_Inr [OF r]
  have q: "sessions_query (session s1) p = sessions_query (session s) p"
    by (simp add: s1 sessions_query_remove_runs)
  from i have 3: "raises (Transaction (DeleteProjectEnvironmentImages p)) = None"
    by (auto simp: DeleteProjectEnvironmentImages_transaction_def
        TwoPhaseFunction_transaction_Inr store_mutation_Inr)
  from assms(2) consider "op \<in> set (run_operations ?live)"
    | "op \<in> set (session_operations p (sessions_query (session s) p))"
    | "op = Transaction (DeleteProjectEnvironmentImages p)"
    by (auto simp: DeleteProject_operations_def)
  then show ?thesis
    using abort_and_delete_runs_None [OF r] stop_sessions_None [OF x, unfolded q] 3
    by cases auto
qed

text \<open>
  C3. When a store mutation of the cascade raises, the deletion is rolled back as a
  whole: the committed store is the one before the call (no run marked aborted, no row
  removed), the only event is the rollback (no backend call is issued), and the endpoint
  answers 500 with the message of the exception (an exception that is not an instance of
  \<open>Exception\<close> leaves the handler instead; the store and the events are the same).
\<close>

theorem C3_failure_rolls_back:
  assumes "op \<in> set (DeleteProject_operations (database w) project_uuid)"
      and "raises op = Some e"
  shows "\<exists>e'. Project_delete raises project_uuid w =
           (if isinstance_Exception e' then Inr ([(''message'', str e')], 500) else Inl e',
            w\<lparr>timeline := timeline w @ [Rollback]\<rparr>)"
proof (cases "DeleteProject_transaction raises project_uuid (TwoPhaseExecutor_enter w)")
  case (Inl e')
  from Project_delete_Inl [OF this] show ?thesis by blast
next
  case (Inr s')
  then obtain s1 where
    "DeleteProject__transaction raises project_uuid (TwoPhaseExecutor_enter w) = Inr s1"
    by (auto simp: DeleteProject_transaction_Inr)
  from DeleteProject__transaction_None [OF this] assms have False
    by (simp add: TwoPhaseExecutor_enter_def)
  then show ?thesis ..
qed

theorem C3_witness:
  "Transaction (DeleteProjectEnvironmentImages ''P'')
     \<in> set (DeleteProject_operations (database example_world) ''P'') \<and>
   images_fail (Transaction (DeleteProjectEnvironmentImages ''P'')) =
     Some (Exception ''constraint violated'') \<and>
   (\<exists>e'. Project_delete images_fail ''P'' example_world =
      (if isinstance_Exception e' then Inr ([(''message'', str e')], 500) else Inl e',
       \<lparr>database = example_db, timeline = [Rollback]\<rparr>))"
proof -
  have a: "Transaction (DeleteProjectEnvironmentImages ''P'')
     \<in> set (DeleteProject_operations (database example_world) ''P'')"
    by (simp add: DeleteProject_operations_def)
  have b: "images_fail (Transaction (DeleteProjectEnvironmentImages ''P'')) =
     Some (Exception ''constraint violated'')"
    by (simp add: images_fail_def)
  from C3_failure_rolls_back [where raises = images_fail and w = example_world, OF a b]
  have "\<exists>e'. Project_delete images_fail ''P'' example_world =
      (if isinstance_Exception e' then Inr ([(''message'', str e')], 500) else Inl e',
       \<lparr>database = example_db, timeline = [Rollback]\<rparr>)"
    by (simp add: example_world_def)
  with a b show ?thesis by simp
qed

text \<open>
  C4. The events of a deletion are either a single rollback, or the commit followed by
  the backend calls of the queued units, in the order the units were put on the queue
  during the store-mutation phase. No backend call comes before the commit.
\<close>

theorem C4_collateral_after_commit_in_order:
  "timeline (snd (Project_delete raises project_uuid w)) =
     timeline w @
       (case DeleteProject_transaction raises project_uuid (TwoPhaseExecutor_enter w) of
          Inl e \<Rightarrow> [Rollback]
        | Inr s \<Rightarrow> Commit # map Call (concat (map calls (collateral_queue s))))"
  by (cases "DeleteProject_transaction raises project_uuid (TwoPhaseExecutor_enter w)")
    (simp_all add: Project_delete_Inl Project_delete_Inr)

text \<open>
  C8 (amended). The handler never propagates an instance of \<open>Exception\<close>: when the
  two-phase execution raises such an exception \<open>e\<close> it answers 500 with \<open>str(e)\<close>, and when
  the execution raises nothing it answers 200 with the message "Project deletion was
  successful.". An exception that is not an instance of \<open>Exception\<close> is not caught by
  line 36 and leaves the handler as the execution raised it.
\<close>

theorem C8_handler_response:
  "fst (Project_delete raises project_uuid w) =
     (case fst (TwoPhaseExecutor (DeleteProject_transaction raises project_uuid) w) of
        Inl e \<Rightarrow> if isinstance_Exception e then Inr ([(''message'', str e)], 500) else Inl e
      | Inr u \<Rightarrow> Inr ([(''message'', ''Project deletion was successful.'')], 200))
   \<and> (\<forall>e. fst (Project_delete raises project_uuid w) = Inl e \<longrightarrow>
          \<not> isinstance_Exception e \<and>
          fst (TwoPhaseExecutor (DeleteProject_transaction raises project_uuid) w) = Inl e)"
proof (cases "DeleteProject_transaction raises project_uuid (TwoPhaseExecutor_enter w)")
  case (Inl e')
  then show ?thesis
    by (simp add: Project_delete_Inl TwoPhaseExecutor_Inl)
next
  case (Inr s)
  then show ?thesis
    by (simp add: Project_delete_Inr TwoPhaseExecutor_Inr)
qed

text \<open>
  C10. The side-effect phase of \<open>DeleteProject\<close> itself changes nothing and issues no
  backend call; draining a queue has the effect of draining the child units alone.
\<close>

theorem C10_own_collateral_noop:
  "DeleteProject__collateral w = w \<and> collateral (DeleteProject p) w = w \<and>
   foldl (\<lambda>w' u. collateral u w') w q =
     foldl (\<lambda>w' u. collateral u w') w (filter (\<lambda>u. \<not> is_DeleteProject u) q)"
proof -
  have "foldl (\<lambda>w' u. collateral u w') w q =
     foldl (\<lambda>w' u. collateral u w') w (filter (\<lambda>u. \<not> is_DeleteProject u) q)"
  proof (induction q arbitrary: w)
    case Nil
    show ?case by simp
  next
    case (Cons u q)
    then show ?case by (cases u) (simp_all add: DeleteProject__collateral_def)
  qed
  then show ?thesis by (simp add: DeleteProject__collateral_def)
qed


theorem C4_witness:
  "timeline (snd (Project_delete no_failure ''P'' example_world)) =
     [Commit, Call (Abort ''r1''), Call (Stop ''P'' ''pl1''), Call (Delete_images ''P'')]"
proof -
  have "TwoPhaseExecutor_enter example_world = example_tpe"
    by (simp add: TwoPhaseExecutor_enter_def example_world_def example_tpe_def)
  then have "DeleteProject_transaction no_failure ''P'' (TwoPhaseExecutor_enter example_world) =
      Inr (example_end\<lparr>collateral_queue := collateral_queue example_end @ [DeleteProject ''P'']\<rparr>)"
    by (simp add: DeleteProject_transaction_Inr example_run)
  with C4_collateral_after_commit_in_order [of no_failure "''P''" example_world]
  show ?thesis by (simp add: example_world_def example_end_def)
qed

lemma example_images_fail:
  "DeleteProject__transaction images_fail ''P'' example_tpe =
     Inl (Exception ''constraint violated'')"
  by (simp add: DeleteProject__transaction_def example_tpe_def example_db_def
      images_fail_def interactive_runs_query_def sessions_query_def jobs_query_def
      AbortPipelineRun_transaction_def StopInteractiveSession_transaction_def
      DeleteProjectEnvironmentImages_transaction_def db_session_delete_def
      TwoPhaseFunction_transaction_def store_mutation_def mark_aborted_def remove_run_def
      remove_session_def remove_images_def)

lemma example_images_interrupted:
  "DeleteProject__transaction images_interrupted ''P'' example_tpe = Inl (BaseException [])"
  by (simp add: DeleteProject__transaction_def example_tpe_def example_db_def
      images_interrupted_def interactive_runs_query_def sessions_query_def jobs_query_def
      AbortPipelineRun_transaction_def StopInteractiveSession_transaction_def
      DeleteProjectEnvironmentImages_transaction_def db_session_delete_def
      TwoPhaseFunction_transaction_def store_mutation_def mark_aborted_def remove_run_def
      remove_session_def remove_images_def)

lemma example_enter: "TwoPhaseExecutor_enter example_world = example_tpe"
  by (simp add: TwoPhaseExecutor_enter_def example_world_def example_tpe_def)

theorem C8_witness:
  "fst (Project_delete no_failure ''P'' example_world) =
     Inr ([(''message'', ''Project deletion was successful.'')], 200) \<and>
   fst (Project_delete images_fail ''P'' example_world) =
     Inr ([(''message'', ''constraint violated'')], 500) \<and>
   fst (Project_delete images_interrupted ''P'' example_world) = Inl (BaseException []) \<and>
   \<not> isinstance_Exception (BaseException [])"
proof -
  have ok: "fst (TwoPhaseExecutor (DeleteProject_transaction no_failure ''P'') example_world) = Inr ()"
    by (simp add: TwoPhaseExecutor_def example_enter DeleteProject_transaction_def
        TwoPhaseFunction_transaction_def example_run)
  have ko: "fst (TwoPhaseExecutor (DeleteProject_transaction images_fail ''P'') example_world) =
      Inl (Exception ''constraint violated'')"
    by (simp add: TwoPhaseExecutor_def example_enter DeleteProject_transaction_def
        TwoPhaseFunction_transaction_def example_images_fail)
  have int: "fst (TwoPhaseExecutor (DeleteProject_transaction images_interrupted ''P'')
      example_world) = Inl (BaseException [])"
    by (simp add: TwoPhaseExecutor_def example_enter DeleteProject_transaction_def
        TwoPhaseFunction_transaction_def example_images_interrupted)
  note r = C8_handler_response [THEN conjunct1]
  have "fst (Project_delete no_failure ''P'' example_world) =
      Inr ([(''message'', ''Project deletion was successful.'')], 200)"
    by (simp only: r [of no_failure "''P''" example_world] ok) simp
  moreover have "fst (Project_delete images_fail ''P'' example_world) =
      Inr ([(''message'', ''constraint violated'')], 500)"
    by (simp only: r [of images_fail "''P''" example_world] ko) simp
  moreover have "fst (Project_delete images_interrupted ''P'' example_world) =
      Inl (BaseException [])"
    by (simp only: r [of images_interrupted "''P''" example_world] int) simp
  ultimately show ?thesis by simp
qed

text \<open>
  C8 as stated fails on the example: a \<open>KeyboardInterrupt\<close> raised while the images of P
  are removed is not an instance of \<open>Exception\<close>, and the handler propagates it instead
  of answering 500.
\<close>

theorem C8_counterexample:
  "images_interrupted (Transaction (DeleteProjectEnvironmentImages ''P'')) =
     Some (BaseException []) \<and>
   Project_delete images_interrupted ''P'' example_world =
     (Inl (BaseException []), \<lparr>database = example_db, timeline = [Rollback]\<rparr>)"
proof -
  have "DeleteProject_transaction images_interrupted ''P'' (TwoPhaseExecutor_enter example_world) =
      Inl (BaseException [])"
    by (simp add: DeleteProject_transaction_Inl example_enter example_images_interrupted)
  from Project_delete_Inl [OF this] show ?thesis
    by (simp add: images_interrupted_def example_world_def)
qed

theorem C10_witness:
  "collateral (DeleteProject ''P'') example_world = example_world \<and>
   foldl (\<lambda>w' u. collateral u w') example_world
     [AbortPipelineRun ''r1'', DeleteProjectEnvironmentImages ''P'', DeleteProject ''P''] =
   foldl (\<lambda>w' u. collateral u w') example_world
     [AbortPipelineRun ''r1'', DeleteProjectEnvironmentImages ''P'']"
  using C10_own_collateral_noop [of example_world "''P''"
      "[AbortPipelineRun ''r1'', DeleteProjectEnvironmentImages ''P'', DeleteProject ''P'']"]
  by simp

subsection \<open>What is left after a successful deletion\<close>

lemma Project_delete_200:
  assumes "fst (Project_delete raises p w) = Inr (body, 200)"
  shows "\<exists>s. DeleteProject__transaction raises p (TwoPhaseExecutor_enter w) = Inr s \<and>
           database (snd (Project_delete raises p w)) = session s"
proof (cases "DeleteProject_transaction raises p (TwoPhaseExecutor_enter w)")
  case (Inl e)
  with assms show ?thesis by (simp add: Project_delete_Inl split: if_splits)
next
  case (Inr s')
  then obtain s1 where
    s1: "DeleteProject__transaction raises p (TwoPhaseExecutor_enter w) = Inr s1" and
    s': "s' = s1\<lparr>collateral_queue := collateral_queue s1 @ [DeleteProject p]\<rparr>"
    by (auto simp: DeleteProject_transaction_Inr)
  from Inr have "database (snd (Project_delete raises p w)) = session s'"
    by (simp add: Project_delete_Inr)
  with s1 s' show ?thesis by simp
qed

text \<open>
  After a deletion of project P that answers 200, the committed store holds no
  interactive run of P with status PENDING or STARTED, no interactive session of P and no
  environment image of P.
\<close>

theorem live_dependents_removed:
  assumes "fst (Project_delete raises project_uuid w) = Inr (body, 200)"
  shows "live_runs (database (snd (Project_delete raises project_uuid w))) project_uuid = []
       \<and> filter (\<lambda>x. session_project_uuid x = project_uuid)
           (interactive_sessions (database (snd (Project_delete raises project_uuid w)))) = []
       \<and> filter (\<lambda>i. image_project_uuid i = project_uuid)
           (environment_images (database (snd (Project_delete raises project_uuid w)))) = []"
proof -
  from Project_delete_200 [OF assms] obtain s where
    s: "DeleteProject__transaction raises project_uuid (TwoPhaseExecutor_enter w) = Inr s" and
    d: "database (snd (Project_delete raises project_uuid w)) = session s"
    by blast
  note r = DeleteProject__transaction_Inr [OF s]
  have "live_runs (session s) project_uuid = []"
    by (auto simp: r DeleteProject_result_def Let_def interactive_runs_query_live
        live_runs_def filter_empty_conv)
  moreover have "filter (\<lambda>x. session_project_uuid x = project_uuid)
      (interactive_sessions (session s)) = []"
    by (simp add: r DeleteProject_result_def Let_def filter_empty_conv)
  moreover have "filter (\<lambda>i. image_project_uuid i = project_uuid)
      (environment_images (session s)) = []"
    by (simp add: r DeleteProject_result_def Let_def filter_empty_conv)
  ultimately show ?thesis by (simp add: d)
qed

lemma example_delete:
  "Project_delete no_failure ''P'' example_world =
     (Inr ([(''message'', ''Project deletion was successful.'')], 200),
      \<lparr>database = session example_end,
       timeline = [Commit, Call (Abort ''r1''), Call (Stop ''P'' ''pl1''),
                   Call (Delete_images ''P'')]\<rparr>)"
proof -
  have "TwoPhaseExecutor_enter example_world = example_tpe"
    by (simp add: TwoPhaseExecutor_enter_def example_world_def example_tpe_def)
  then have "DeleteProject_transaction no_failure ''P'' (TwoPhaseExecutor_enter example_world) =
      Inr (example_end\<lparr>collateral_queue := collateral_queue example_end @ [DeleteProject ''P'']\<rparr>)"
    by (simp add: DeleteProject_transaction_Inr example_run)
  from Project_delete_Inr [OF this] show ?thesis
    by (simp add: example_world_def example_end_def)
qed

theorem live_dependents_removed_witness:
  "fst (Project_delete no_failure ''P'' example_world) =
     Inr ([(''message'', ''Project deletion was successful.'')], 200) \<and>
   live_runs (database (snd (Project_delete no_failure ''P'' example_world))) ''P'' = [] \<and>
   filter (\<lambda>x. session_project_uuid x = ''P'')
     (interactive_sessions (database (snd (Project_delete no_failure ''P'' example_world)))) = [] \<and>
   filter (\<lambda>i. image_project_uuid i = ''P'')
     (environment_images (database (snd (Project_delete no_failure ''P'' example_world)))) = []"
proof -
  have a: "fst (Project_delete no_failure ''P'' example_world) =
     Inr ([(''message'', ''Project deletion was successful.'')], 200)"
    by (simp add: example_delete)
  from live_dependents_removed [OF a] a show ?thesis by simp
qed

text \<open>
  C2. The specification says that after a successful deletion of P no run, session, job
  or image referencing P remains. On the example the deletion of P answers 200, and the
  finished run r2 and the job j1, both referencing P, are still in the committed store.
  The run query selects the PENDING and STARTED runs only (lines 54-58), although the
  comment on lines 52-53 and the docstrings say that every run of the project is deleted;
  line 94 never runs the \<open>DeleteJob\<close> unit.
\<close>

theorem C2_finished_run_and_job_survive:
  "fst (Project_delete no_failure ''P'' example_world) =
     Inr ([(''message'', ''Project deletion was successful.'')], 200) \<and>
   filter (\<lambda>r. run_project_uuid r = ''P'')
     (interactive_runs (database (snd (Project_delete no_failure ''P'' example_world)))) =
     [\<lparr>run_uuid = ''r2'', run_project_uuid = ''P'', status = ''SUCCESS''\<rparr>] \<and>
   filter (\<lambda>j. job_project_uuid j = ''P'')
     (jobs (database (snd (Project_delete no_failure ''P'' example_world)))) =
     [\<lparr>job_uuid = ''j1'', job_project_uuid = ''P''\<rparr>]"
  by (simp add: example_delete) (simp add: example_end_def)

subsection \<open>A deletion in which nothing raises returns\<close>

lemma abort_and_delete_runs_ok:
  "(\<And>op. op \<in> set (run_operations rs) \<Longrightarrow> raises op = None) \<Longrightarrow>
     \<exists>s'. abort_and_delete_runs raises rs s = Inr s'"
proof (induction rs arbitrary: s)
  case Nil
  show ?case by simp
next
  case (Cons r rs)
  have 1: "raises (Transaction (AbortPipelineRun (run_uuid r))) = None"
    and 2: "raises (Delete (run_uuid r)) = None"
    by (rule Cons.prems, simp add: run_operations_def)+
  have 3: "raises op = None" if "op \<in> set (run_operations rs)" for op
    by (rule Cons.prems) (use that in \<open>simp add: run_operations_def\<close>)
  from Cons.IH [OF 3] show ?case
    by (simp add: AbortPipelineRun_transaction_def db_session_delete_def
        TwoPhaseFunction_transaction_def store_mutation_def 1 2)
qed

lemma stop_sessions_ok:
  "(\<And>op. op \<in> set (session_operations p prs) \<Longrightarrow> raises op = None) \<Longrightarrow>
     \<exists>s'. stop_sessions raises p prs s = Inr s'"
proof (induction prs arbitrary: s)
  case Nil
  show ?case by simp
next
  case (Cons pr prs)
  have 1: "raises (Transaction (StopInteractiveSession p (snd pr))) = None"
    by (rule Cons.prems) (simp add: session_operations_def)
  have 3: "raises op = None" if "op \<in> set (session_operations p prs)" for op
    by (rule Cons.prems) (use that in \<open>simp add: session_operations_def\<close>)
  from Cons.IH [OF 3] show ?case
    by (simp add: StopInteractiveSession_transaction_def
        TwoPhaseFunction_transaction_def store_mutation_def 1)
qed

lemma DeleteProject__transaction_ok:
  assumes "\<And>op. op \<in> set (DeleteProject_operations (session s) p) \<Longrightarrow> raises op = None"
  shows "DeleteProject__transaction raises p s = Inr (DeleteProject_result p s)"
proof -
  let ?live = "interactive_runs_query (session s) p"
  have "\<exists>s1. abort_and_delete_runs raises ?live s = Inr s1"
    by (rule abort_and_delete_runs_ok, rule assms) (simp add: DeleteProject_operations_def)
  then obtain s1 where r: "abort_and_delete_runs raises ?live s = Inr s1" ..
  note s1 = abort_and_delete_runs_Inr [OF r]
  have q: "sessions_query (session s1) p = sessions_query (session s) p"
    by (simp add: s1 sessions_query_remove_runs)
  have "\<exists>s2. stop_sessions raises p (sessions_query (session s1) p) s1 = Inr s2"
    unfolding q
    by (rule stop_sessions_ok, rule assms) (simp add: DeleteProject_operations_def)
  then obtain s2 where x: "stop_sessions raises p (sessions_query (session s1) p) s1 = Inr s2" ..
  have 3: "raises (Transaction (DeleteProjectEnvironmentImages p)) = None"
    by (rule assms) (simp add: DeleteProject_operations_def)
  have "\<exists>s'. DeleteProject__transaction raises p s = Inr s'"
    by (simp add: DeleteProject__transaction_def r x
        DeleteProjectEnvironmentImages_transaction_def TwoPhaseFunction_transaction_def
        store_mutation_def 3)
  then obtain s' where s': "DeleteProject__transaction raises p s = Inr s'" ..
  from DeleteProject__transaction_Inr [OF s'] s' show ?thesis by simp
qed

text \<open>
  When none of the store mutations a deletion attempts raises, the handler answers 200,
  the store \<open>DeleteProject_result\<close> describes is committed, and the backend calls of the
  queued units follow the commit.
\<close>

theorem deletion_returns_when_nothing_raises:
  assumes "\<And>op. op \<in> set (DeleteProject_operations (database w) project_uuid) \<Longrightarrow>
             raises op = None"
  shows "Project_delete raises project_uuid w =
     (Inr ([(''message'', ''Project deletion was successful.'')], 200),
      \<lparr>database = session (DeleteProject_result project_uuid (TwoPhaseExecutor_enter w)),
       timeline = timeline w @ Commit #
         map Call (concat (map calls
           (collateral_queue (DeleteProject_result project_uuid (TwoPhaseExecutor_enter w)))))\<rparr>)"
proof -
  let ?s = "TwoPhaseExecutor_enter w"
  have "DeleteProject__transaction raises project_uuid ?s = Inr (DeleteProject_result project_uuid ?s)"
    by (rule DeleteProject__transaction_ok, rule assms) (simp add: TwoPhaseExecutor_enter_def)
  then have "DeleteProject_transaction raises project_uuid ?s =
      Inr ((DeleteProject_result project_uuid ?s)\<lparr>collateral_queue :=
        collateral_queue (DeleteProject_result project_uuid ?s) @ [DeleteProject project_uuid]\<rparr>)"
    by (simp add: DeleteProject_transaction_Inr)
  from Project_delete_Inr [OF this] show ?thesis by simp
qed

theorem deletion_returns_witness:
  "Project_delete no_failure ''P'' example_world =
     (Inr ([(''message'', ''Project deletion was successful.'')], 200),
      \<lparr>database = session example_end,
       timeline = [Commit, Call (Abort ''r1''), Call (Stop ''P'' ''pl1''),
                   Call (Delete_images ''P'')]\<rparr>)"
proof -
  have "DeleteProject_result ''P'' (TwoPhaseExecutor_enter example_world) = example_end"
    by (simp add: DeleteProject_result_def TwoPhaseExecutor_enter_def example_world_def
        example_db_def example_end_def interactive_runs_query_def sessions_query_def
        run_operations_def session_operations_def)
  with deletion_returns_when_nothing_raises [of example_world "''P''" no_failure] show ?thesis
    by (simp add: no_failure_def example_world_def example_end_def)
qed

end
